theory Spec2Isabelle
  imports Main
begin

section \<open>JavaScript strings\<close>

text \<open>
  A string is the list of its UTF-16 code units, as JavaScript indexes and compares it;
  a code unit is a number. The handlers test for the double quote, the comma, the line
  feed and white space.
\<close>

type_synonym jsstring = "int list"

abbreviation DQUOTE :: int where "DQUOTE \<equiv> 34"
abbreviation COMMA :: int where "COMMA \<equiv> 44"
abbreviation LF :: int where "LF \<equiv> 10"

text \<open>A string literal of the source, written in ASCII.\<close>

definition str :: "string \<Rightarrow> jsstring" where
  "str s = map of_char s"

text \<open>
  White space as \<^verbatim>\<open>String.prototype.trim\<close> and the class \<^verbatim>\<open>\s\<close> see it: tab, line
  feed, vertical tab, form feed, carriage return, space, the no-break space U+00A0, U+1680,
  the spaces U+2000 to U+200A, the separators U+2028 and U+2029, U+202F, U+205F, U+3000
  and the byte order mark U+FEFF.
\<close>

definition isSpace :: "int \<Rightarrow> bool" where
  "isSpace c =
     (c \<in> set [0x09, 0x0A, 0x0B, 0x0C, 0x0D, 0x20, 0xA0, 0x1680, 0x2028, 0x2029, 0x202F,
               0x205F, 0x3000, 0xFEFF]
      \<or> (0x2000 \<le> c \<and> c \<le> 0x200A))"

text \<open>\<^verbatim>\<open>s.trim()\<close>\<close>

definition js_trim :: "jsstring \<Rightarrow> jsstring" where
  "js_trim s = rev (dropWhile isSpace (rev (dropWhile isSpace s)))"

text \<open>
  \<^verbatim>\<open>s.split(c)\<close> for a one-character separator: the pieces between the separators, so a
  string with \<open>n\<close> separators has \<open>n + 1\<close> pieces and \<^verbatim>\<open>''.split(c)\<close> is \<^verbatim>\<open>['']\<close>.
\<close>

fun js_split :: "int \<Rightarrow> jsstring \<Rightarrow> jsstring list" where
  "js_split sep [] = [[]]"
| "js_split sep (c # cs) =
     (if c = sep then [] # js_split sep cs
      else (case js_split sep cs of
              [] \<Rightarrow> [[c]]
            | w # ws \<Rightarrow> (c # w) # ws))"

text \<open>
  \<^verbatim>\<open>s.split(/[,\s]+/)\<close>: the pieces between the maximal runs of commas and white space.
  A run at the start or the end of the string leaves an empty piece there.
\<close>

definition isIpSeparator :: "int \<Rightarrow> bool" where
  "isIpSeparator c = (c = COMMA \<or> isSpace c)"

function splitRuns :: "(int \<Rightarrow> bool) \<Rightarrow> jsstring \<Rightarrow> jsstring list" where
  "splitRuns p [] = [[]]"
| "splitRuns p (c # cs) =
     (if p c then [] # splitRuns p (dropWhile p cs)
      else (case splitRuns p cs of
              [] \<Rightarrow> [[c]]
            | w # ws \<Rightarrow> (c # w) # ws))"
  by pat_completeness auto
termination
  by (relation "measure (\<lambda>(p, s). length s)")
     (auto simp: length_dropWhile_le less_Suc_eq_le)

text \<open>\<^verbatim>\<open>s.substring(a, b)\<close> for \<open>a \<le> b\<close>, the only way the codec calls it.\<close>

definition substring :: "jsstring \<Rightarrow> nat \<Rightarrow> nat \<Rightarrow> jsstring" where
  "substring s a b = take (b - a) (drop a s)"

text \<open>\<^verbatim>\<open>s.replace(/"/g, '""')\<close>: every double quote is doubled.\<close>

fun doubleQuotes :: "jsstring \<Rightarrow> jsstring" where
  "doubleQuotes [] = []"
| "doubleQuotes (c # cs) =
     (if c = DQUOTE then DQUOTE # DQUOTE # doubleQuotes cs else c # doubleQuotes cs)"

text \<open>
  \<^verbatim>\<open>s.replace(/^"|"$/g, '')\<close>: a double quote at the very start is removed, and then a
  double quote at the very end of what is left (a string that is one double quote has one
  match only).
\<close>

definition stripOuterQuotes :: "jsstring \<Rightarrow> jsstring" where
  "stripOuterQuotes s =
     (let s1 = (case s of [] \<Rightarrow> [] | c # cs \<Rightarrow> if c = DQUOTE then cs else s)
      in if s1 \<noteq> [] \<and> last s1 = DQUOTE then butlast s1 else s1)"

text \<open>
  \<^verbatim>\<open>s.replace(/""/g, '"')\<close>: from left to right, each pair of double quotes becomes
  one; the matches do not overlap.
\<close>

fun collapseQuotes :: "jsstring \<Rightarrow> jsstring" where
  "collapseQuotes (a # b # cs) =
     (if a = DQUOTE \<and> b = DQUOTE then DQUOTE # collapseQuotes cs
      else a # collapseQuotes (b # cs))"
| "collapseQuotes cs = cs"

text \<open>\<^verbatim>\<open>xs[i]\<close> on an array: \<^verbatim>\<open>undefined\<close> past the end.\<close>

definition js_index :: "'a list \<Rightarrow> nat \<Rightarrow> 'a option" where
  "js_index xs i = (if i < length xs then Some (xs ! i) else None)"

text \<open>
  An object used as a table from strings is a map of its own entries. Reading
  \<^verbatim>\<open>obj[key]\<close> for a key with no own entry falls through to
  \<^verbatim>\<open>Object.prototype\<close>, which has twelve properties, each of them a function or
  an object and so true as a condition.
\<close>

definition objectPrototypeNames :: "jsstring list" where
  "objectPrototypeNames =
     [(str ''constructor''), (str ''__defineGetter__''), (str ''__defineSetter__''), (str ''hasOwnProperty''),
      (str ''__lookupGetter__''), (str ''__lookupSetter__''), (str ''isPrototypeOf''),
      (str ''propertyIsEnumerable''), (str ''toString''), (str ''valueOf''), (str ''__proto__''),
      (str ''toLocaleString'')]"

definition inheritedName :: "jsstring \<Rightarrow> bool" where
  "inheritedName key = (key \<in> set objectPrototypeNames)"

section \<open>Data model\<close>

text \<open>
  The fields of the application's types that the administration panel and the announcement
  board read. Optional fields (\<^verbatim>\<open>description?\<close>, \<^verbatim>\<open>departmentId?\<close>,
  \<^verbatim>\<open>assigneeId?\<close>, \<^verbatim>\<open>readBy?\<close>) are options, with \<open>None\<close> for \<^verbatim>\<open>undefined\<close>.
  The type \<open>'d\<close> is JavaScript's \<^verbatim>\<open>Date\<close>; an event built by the importer is a
  \<^verbatim>\<open>Partial<CalendarEvent>\<close> with the same six fields.
\<close>

record Department =
  dept_id :: jsstring
  dept_name :: jsstring

record User =
  user_id :: jsstring
  user_name :: jsstring
  user_email :: jsstring
  user_emoji :: jsstring

record 'd CalendarEvent =
  title :: jsstring
  date :: 'd
  urgency :: jsstring
  description :: "jsstring option"
  departmentId :: "jsstring option"
  assigneeId :: "jsstring option"

record IpAccessConfig =
  designerIps :: "jsstring list option"
  departmentIps :: "jsstring \<rightharpoonup> jsstring"

record 't Announcement =
  ann_id :: jsstring
  ann_title :: jsstring
  ann_content :: jsstring
  createdAt :: 't
  readBy :: "jsstring list option"

section \<open>Export: \<^verbatim>\<open>handleExportCSV\<close>\<close>

text \<open>
  \<^verbatim>\<open>departments.find(d => d.id === ev.departmentId)?.name || ''\<close> and the same for
  the assignee: the name of the first entity with the referenced identifier, and the empty
  string when the reference is \<^verbatim>\<open>undefined\<close> or no entity has it.
\<close>

definition deptNameOf :: "Department list \<Rightarrow> ('d, 'x) CalendarEvent_scheme \<Rightarrow> jsstring" where
  "deptNameOf departments ev =
     (case find (\<lambda>d. Some (dept_id d) = departmentId ev) departments of
        Some d \<Rightarrow> dept_name d
      | None \<Rightarrow> [])"

definition userNameOf :: "User list \<Rightarrow> ('d, 'x) CalendarEvent_scheme \<Rightarrow> jsstring" where
  "userNameOf users ev =
     (case find (\<lambda>u. Some (user_id u) = assigneeId ev) users of
        Some u \<Rightarrow> user_name u
      | None \<Rightarrow> [])"

text \<open>The template \<^verbatim>\<open>`"${s.replace(/"/g, '""')}"`\<close>.\<close>

definition safeField :: "jsstring \<Rightarrow> jsstring" where
  "safeField s = DQUOTE # doubleQuotes s @ [DQUOTE]"

text \<open>
  The six fields of one exported line, in the order of the template that builds the line.
  The parameter \<open>fmt\<close> is \<^verbatim>\<open>format(_, 'yyyy-MM-dd')\<close> of the date library, which
  raises a \<^verbatim>\<open>RangeError\<close> on an invalid date: \<open>None\<close> here, and the handler, which
  does not catch it, is left without a result.
\<close>

definition exportFields ::
  "('d \<Rightarrow> jsstring option) \<Rightarrow> Department list \<Rightarrow> User list \<Rightarrow> 'd CalendarEvent
     \<Rightarrow> jsstring list option" where
  "exportFields fmt departments users ev =
     (let dept = deptNameOf departments ev;
          user = userNameOf users ev
      in case fmt (date ev) of
           None \<Rightarrow> None
         | Some dateStr \<Rightarrow>
             (let safeTitle = safeField (title ev);
                  safeDesc = safeField (case description ev of None \<Rightarrow> [] | Some t \<Rightarrow> t);
                  safeDept = safeField dept;
                  safeUser = safeField user
              in Some [safeTitle, dateStr, urgency ev, safeDesc, safeDept, safeUser]))"

fun joinFields :: "jsstring list \<Rightarrow> jsstring" where
  "joinFields [] = []"
| "joinFields [f] = f"
| "joinFields (f # g # fs) = f @ COMMA # joinFields (g # fs)"

definition exportRow ::
  "('d \<Rightarrow> jsstring option) \<Rightarrow> Department list \<Rightarrow> User list \<Rightarrow> 'd CalendarEvent
     \<Rightarrow> jsstring option" where
  "exportRow fmt departments users ev =
     map_option (\<lambda>fields. joinFields fields @ [LF]) (exportFields fmt departments users ev)"

definition csvHeader :: jsstring where
  "csvHeader = (str ''Title,Date,Urgency,Description,Department,Assignee'')"

text \<open>
  \<^verbatim>\<open>events.forEach\<close> appends one line per event to \<^verbatim>\<open>csvContent\<close>, which starts
  as the header line; the result is the text handed to the download.
\<close>

fun exportLoop ::
  "('d \<Rightarrow> jsstring option) \<Rightarrow> Department list \<Rightarrow> User list \<Rightarrow> jsstring \<Rightarrow> 'd CalendarEvent list
     \<Rightarrow> jsstring option" where
  "exportLoop fmt departments users csvContent [] = Some csvContent"
| "exportLoop fmt departments users csvContent (ev # evs) =
     (case exportRow fmt departments users ev of
        None \<Rightarrow> None
      | Some row \<Rightarrow> exportLoop fmt departments users (csvContent @ row) evs)"

definition handleExportCSV ::
  "('d \<Rightarrow> jsstring option) \<Rightarrow> Department list \<Rightarrow> User list \<Rightarrow> 'd CalendarEvent list
     \<Rightarrow> jsstring option" where
  "handleExportCSV fmt departments users events =
     exportLoop fmt departments users (csvHeader @ [LF]) events"

section \<open>Import: \<^verbatim>\<open>handleImportCSV\<close>\<close>

definition unquoteField :: "jsstring \<Rightarrow> jsstring" where
  "unquoteField s = collapseQuotes (stripOuterQuotes s)"

text \<open>
  The helper \<^verbatim>\<open>parseCSVLine\<close>: one pass over the indices of the line, with the start
  of the current field, the flag \<^verbatim>\<open>inQuotes\<close> and the fields pushed so far.
\<close>

function parseLoop :: "jsstring \<Rightarrow> nat \<Rightarrow> nat \<Rightarrow> bool \<Rightarrow> jsstring list \<Rightarrow> jsstring list" where
  "parseLoop line i start inQuotes result =
     (if i < length line then
        (if line ! i = DQUOTE then parseLoop line (i + 1) start (\<not> inQuotes) result
         else if line ! i = COMMA \<and> \<not> inQuotes then
           parseLoop line (i + 1) (i + 1) inQuotes
             (result @ [unquoteField (substring line start i)])
         else parseLoop line (i + 1) start inQuotes result)
      else result @ [unquoteField (drop start line)])"
  by pat_completeness auto
termination
  by (relation "measure (\<lambda>(line, i, start, inQuotes, result). length line - i)") auto

definition parseCSVLine :: "jsstring \<Rightarrow> jsstring list" where
  "parseCSVLine line = parseLoop line 0 0 False []"

text \<open>
  The same scan by recursion on the rest of the line, carrying the text of the current
  field instead of its start index; \<open>parseLoop_scan\<close> below relates the two.
\<close>

fun scanCSV :: "bool \<Rightarrow> jsstring \<Rightarrow> jsstring \<Rightarrow> jsstring list" where
  "scanCSV inQuotes cur [] = [unquoteField cur]"
| "scanCSV inQuotes cur (c # cs) =
     (if c = DQUOTE then scanCSV (\<not> inQuotes) (cur @ [c]) cs
      else if c = COMMA \<and> \<not> inQuotes then unquoteField cur # scanCSV inQuotes [] cs
      else scanCSV inQuotes (cur @ [c]) cs)"

text \<open>
  \<open>URGENCY_CONFIGS\<close> is the table of the known urgency levels, imported from the
  constants module: an object with one configuration per level, so a level is known when
  the table has an entry for it. \<^verbatim>\<open>URGENCY_CONFIGS[urgency]\<close> as a condition is true
  for a known level, a configuration being an object, and for an inherited name.
\<close>

definition hasUrgencyConfig :: "(jsstring \<rightharpoonup> 'c) \<Rightarrow> jsstring \<Rightarrow> bool" where
  "hasUrgencyConfig URGENCY_CONFIGS level =
     (case URGENCY_CONFIGS level of None \<Rightarrow> inheritedName level | Some config \<Rightarrow> True)"

text \<open>
  The event pushed for a line with at least three columns. \<open>mkDate\<close> is the constructor
  \<^verbatim>\<open>new Date(dateStr)\<close>.
\<close>

definition importRecord ::
  "(jsstring \<Rightarrow> 'd) \<Rightarrow> (jsstring \<rightharpoonup> 'c) \<Rightarrow> Department list \<Rightarrow> User list \<Rightarrow> jsstring list
     \<Rightarrow> 'd CalendarEvent" where
  "importRecord mkDate URGENCY_CONFIGS departments users cols =
     (let title = cols ! 0;
          dateStr = cols ! 1;
          urgency = cols ! 2;
          description = js_index cols 3;
          deptName = js_index cols 4;
          userName = js_index cols 5;
          deptId = (case deptName of
                      None \<Rightarrow> None
                    | Some n \<Rightarrow> map_option dept_id (find (\<lambda>d. dept_name d = n) departments));
          assigneeId = (case userName of
                          None \<Rightarrow> None
                        | Some n \<Rightarrow> map_option user_id (find (\<lambda>u. user_name u = n) users))
      in \<lparr> title = title,
           date = mkDate dateStr,
           urgency = (if hasUrgencyConfig URGENCY_CONFIGS urgency then urgency else (str ''Medium'')),
           description = description,
           departmentId = deptId,
           assigneeId = assigneeId \<rparr>)"

text \<open>
  The loop over \<^verbatim>\<open>lines[1], lines[2], ...\<close>: a blank line and a line with fewer than
  three columns are passed over (\<^verbatim>\<open>continue\<close>), any other line pushes one event.
\<close>

fun importLoop ::
  "(jsstring \<Rightarrow> 'd) \<Rightarrow> (jsstring \<rightharpoonup> 'c) \<Rightarrow> Department list \<Rightarrow> User list \<Rightarrow> jsstring list
     \<Rightarrow> 'd CalendarEvent list" where
  "importLoop mkDate cfgs departments users [] = []"
| "importLoop mkDate cfgs departments users (l # ls) =
     (let line = js_trim l in
      if line = [] then importLoop mkDate cfgs departments users ls
      else let cols = parseCSVLine line in
        if length cols < 3 then importLoop mkDate cfgs departments users ls
        else importRecord mkDate cfgs departments users cols
               # importLoop mkDate cfgs departments users ls)"

text \<open>
  The two messages \<^verbatim>\<open>setError\<close> shows before anything is parsed: the text is blank, or
  it has a single line.
\<close>

datatype import_error = EmptyCsvInput | HeaderOnlyCsv

text \<open>
  The handler returns the message it shows, or the batch it hands to
  \<^verbatim>\<open>onBulkAddEvents\<close>, its only call that changes anything.
\<close>

definition handleImportCSV ::
  "(jsstring \<Rightarrow> 'd) \<Rightarrow> (jsstring \<rightharpoonup> 'c) \<Rightarrow> Department list \<Rightarrow> User list \<Rightarrow> jsstring
     \<Rightarrow> import_error + 'd CalendarEvent list" where
  "handleImportCSV mkDate cfgs departments users importText =
     (if js_trim importText = [] then Inl EmptyCsvInput
      else let lines = js_split LF (js_trim importText) in
        if length lines < 2 then Inl HeaderOnlyCsv
        else Inr (importLoop mkDate cfgs departments users (tl lines)))"

section \<open>Access table: \<^verbatim>\<open>handleAddIpMapping\<close>\<close>

text \<open>
  The messages of the handler: a blank address text or no department chosen, and the
  addresses of the batch that are already mapped.
\<close>

datatype mapping_error = MissingIpOrDepartment | AlreadyMapped "jsstring list"

text \<open>\<^verbatim>\<open>newMapIp.split(/[,\s]+/).filter(ip => ip.trim() !== '')\<close>\<close>

definition ipsToAdd :: "jsstring \<Rightarrow> jsstring list" where
  "ipsToAdd newMapIp = filter (\<lambda>ip. js_trim ip \<noteq> []) (splitRuns isIpSeparator newMapIp)"

text \<open>
  \<^verbatim>\<open>ipConfig.departmentIps[ip]\<close> as a condition: true when the address has an entry
  whose department identifier is not the empty string, and when it has no entry and is an
  inherited name.
\<close>

definition hasMapping :: "(jsstring \<rightharpoonup> jsstring) \<Rightarrow> jsstring \<Rightarrow> bool" where
  "hasMapping m ip =
     (case m ip of None \<Rightarrow> inheritedName ip | Some deptId \<Rightarrow> deptId \<noteq> [])"

text \<open>\<^verbatim>\<open>ipsToAdd.forEach(ip => { updatedMap[ip] = newMapDeptId; })\<close>\<close>

fun assignAll :: "(jsstring \<rightharpoonup> jsstring) \<Rightarrow> jsstring list \<Rightarrow> jsstring \<Rightarrow> (jsstring \<rightharpoonup> jsstring)" where
  "assignAll updatedMap [] newMapDeptId = updatedMap"
| "assignAll updatedMap (ip # ips) newMapDeptId =
     assignAll (updatedMap(ip \<mapsto> newMapDeptId)) ips newMapDeptId"

text \<open>
  The handler returns the message it shows, or the configuration it hands to
  \<^verbatim>\<open>onUpdateIpConfig\<close>, its only call that changes the table.
\<close>

definition handleAddIpMapping ::
  "IpAccessConfig \<Rightarrow> jsstring \<Rightarrow> jsstring \<Rightarrow> mapping_error + IpAccessConfig" where
  "handleAddIpMapping ipConfig newMapIp newMapDeptId =
     (if js_trim newMapIp = [] \<or> newMapDeptId = [] then Inl MissingIpOrDepartment
      else let existingIps = filter (hasMapping (departmentIps ipConfig)) (ipsToAdd newMapIp) in
        if length existingIps > 0 then Inl (AlreadyMapped existingIps)
        else Inr (ipConfig\<lparr> departmentIps :=
                     assignAll (departmentIps ipConfig) (ipsToAdd newMapIp) newMapDeptId \<rparr>))"

text \<open>The table after the handler has run: unchanged when it showed a message.\<close>

definition tableAfter :: "IpAccessConfig \<Rightarrow> mapping_error + IpAccessConfig \<Rightarrow> IpAccessConfig" where
  "tableAfter ipConfig res = (case res of Inl e \<Rightarrow> ipConfig | Inr updated \<Rightarrow> updated)"

section \<open>Announcements: unread state\<close>

text \<open>
  \<^verbatim>\<open>isToday(d)\<close> of the date library: \<open>d\<close> and the current time have the same start of
  day in the local time zone. The parameter \<open>startOfDay\<close> is that library function.
\<close>

definition isToday :: "('t \<Rightarrow> 'day) \<Rightarrow> 't \<Rightarrow> 't \<Rightarrow> bool" where
  "isToday startOfDay now d = (startOfDay d = startOfDay now)"

text \<open>
  A \<^verbatim>\<open>string | null\<close> as a condition: \<^verbatim>\<open>null\<close> and the empty string are false.
\<close>

definition truthyId :: "jsstring option \<Rightarrow> bool" where
  "truthyId currentUserId = (case currentUserId of None \<Rightarrow> False | Some u \<Rightarrow> u \<noteq> [])"

text \<open>
  \<^verbatim>\<open>(announcement.readBy || []).includes(currentUserId)\<close>; \<^verbatim>\<open>null\<close> is in no array
  of strings.
\<close>

definition readByIncludes :: "('t, 'x) Announcement_scheme \<Rightarrow> jsstring option \<Rightarrow> bool" where
  "readByIncludes announcement currentUserId =
     (case currentUserId of
        None \<Rightarrow> False
      | Some u \<Rightarrow> u \<in> set (case readBy announcement of None \<Rightarrow> [] | Some us \<Rightarrow> us))"

text \<open>
  The condition that paints an announcement as new:
  \<^verbatim>\<open>isToday(createdAt) && currentUserId && !(readBy || []).includes(currentUserId)\<close>.
\<close>

definition isUnread ::
  "('t \<Rightarrow> 'day) \<Rightarrow> 't \<Rightarrow> ('t, 'x) Announcement_scheme \<Rightarrow> jsstring option \<Rightarrow> bool" where
  "isUnread startOfDay now announcement currentUserId =
     (isToday startOfDay now (createdAt announcement) \<and> truthyId currentUserId \<and>
      \<not> readByIncludes announcement currentUserId)"

text \<open>
  The effect that runs when the board opens: the identifiers it passes to
  \<^verbatim>\<open>onMarkAsRead\<close>, in the order of the announcements it walks.
\<close>

definition markOnOpen ::
  "('t \<Rightarrow> 'day) \<Rightarrow> 't \<Rightarrow> bool \<Rightarrow> jsstring option \<Rightarrow> ('t, 'x) Announcement_scheme list
     \<Rightarrow> jsstring list" where
  "markOnOpen startOfDay now isOpen currentUserId sortedAnnouncements =
     (if isOpen \<and> truthyId currentUserId then
        map ann_id
          (filter (\<lambda>announcement.
                     isToday startOfDay now (createdAt announcement) \<and>
                     \<not> readByIncludes announcement currentUserId)
             sortedAnnouncements)
      else [])"

section \<open>Users: \<^verbatim>\<open>handleAddSubmit\<close>\<close>

text \<open>The arguments of \<^verbatim>\<open>onAddUser(newName, newEmail, emojiToSave, avatarUrl)\<close>.\<close>

record NewUser =
  nu_name :: jsstring
  nu_email :: jsstring
  nu_emoji :: jsstring
  nu_avatarUrl :: jsstring

text \<open>
  The messages of the form: a blank name or address, no emoji and no photo, and the
  failure of the upload, which the handler catches.
\<close>

datatype add_user_error = MissingNameOrEmail | MissingAvatar | UploadFailed

text \<open>The fallback glyph U+1F464, a surrogate pair.\<close>

definition fallbackEmoji :: jsstring where
  "fallbackEmoji = [0xD83D, 0xDC64]"

text \<open>
  The parameter \<open>upload\<close> stores the file and returns its download address, or fails.
  The handler returns the message it shows, or the arguments it passes to
  \<^verbatim>\<open>onAddUser\<close>.
\<close>

definition handleAddSubmit ::
  "('f \<Rightarrow> jsstring option) \<Rightarrow> jsstring \<Rightarrow> jsstring \<Rightarrow> jsstring \<Rightarrow> 'f option
     \<Rightarrow> add_user_error + NewUser" where
  "handleAddSubmit upload newName newEmail selectedEmoji avatarFile =
     (if js_trim newName = [] \<or> js_trim newEmail = [] then Inl MissingNameOrEmail
      else if selectedEmoji = [] \<and> avatarFile = None then Inl MissingAvatar
      else
        (case (case avatarFile of None \<Rightarrow> Some [] | Some file \<Rightarrow> upload file) of
           None \<Rightarrow> Inl UploadFailed
         | Some avatarUrl \<Rightarrow>
             (let emojiToSave = (if selectedEmoji \<noteq> [] then selectedEmoji else fallbackEmoji)
              in Inr \<lparr> nu_name = newName, nu_email = newEmail,
                       nu_emoji = emojiToSave, nu_avatarUrl = avatarUrl \<rparr>)))"

section \<open>Predicates on exported records\<close>






section \<open>A concrete calendar and sample data\<close>

text \<open>
  The examples below run the handlers on concrete data: dates with a formatter and a
  constructor, a table of levels, departments and users.

  A date is a point in time, written in UTC as a calendar day and the minute of that day, or
  it is the invalid date. \<open>Day y m d\<close> is the midnight that starts the day in UTC. The
  time zone \<open>tz\<close> is the number of minutes the local clock is ahead of UTC (\<open>- 300\<close> for
  five hours behind it). The stand-ins cover the years 0001 to 9999.
\<close>

datatype js_date = UtcTime nat nat nat nat | InvalidDate

abbreviation Day :: "nat \<Rightarrow> nat \<Rightarrow> nat \<Rightarrow> js_date" where
  "Day y m d \<equiv> UtcTime y m d 0"

definition leapYear :: "nat \<Rightarrow> bool" where
  "leapYear y = (y mod 4 = 0 \<and> (y mod 100 \<noteq> 0 \<or> y mod 400 = 0))"

definition daysInMonth :: "nat \<Rightarrow> nat \<Rightarrow> nat" where
  "daysInMonth y m =
     (if m = 2 then (if leapYear y then 29 else 28)
      else if m \<in> set [4, 6, 9, 11] then 30 else 31)"

definition dayBefore :: "nat \<Rightarrow> nat \<Rightarrow> nat \<Rightarrow> nat \<times> nat \<times> nat" where
  "dayBefore y m d =
     (if 1 < d then (y, m, d - 1)
      else if 1 < m then (y, m - 1, daysInMonth y (m - 1))
      else (y - 1, 12, 31))"

definition dayAfter :: "nat \<Rightarrow> nat \<Rightarrow> nat \<Rightarrow> nat \<times> nat \<times> nat" where
  "dayAfter y m d =
     (if d < daysInMonth y m then (y, m, d + 1)
      else if m < 12 then (y, m + 1, 1)
      else (y + 1, 1, 1))"

text \<open>The calendar day the local clock shows at a time, for a zone within a day of UTC.\<close>

definition localDay :: "int \<Rightarrow> nat \<Rightarrow> nat \<Rightarrow> nat \<Rightarrow> nat \<Rightarrow> nat \<times> nat \<times> nat" where
  "localDay tz y m d minute =
     (let t = int minute + tz
      in if t < 0 then dayBefore y m d
         else if 1440 \<le> t then dayAfter y m d
         else (y, m, d))"

fun padDigits :: "nat \<Rightarrow> nat \<Rightarrow> jsstring" where
  "padDigits 0 n = []"
| "padDigits (Suc w) n = padDigits w (n div 10) @ [(str ''0123456789'') ! (n mod 10)]"

text \<open>
  \<^verbatim>\<open>format(d, 'yyyy-MM-dd')\<close> of the date library in the time zone \<open>tz\<close>: the local
  calendar day of the date, and a \<^verbatim>\<open>RangeError\<close> for the invalid date.
\<close>

fun formatLocal :: "int \<Rightarrow> js_date \<Rightarrow> jsstring option" where
  "formatLocal tz InvalidDate = None"
| "formatLocal tz (UtcTime y m d minute) =
     (case localDay tz y m d minute of
        (ly, lm, ld) \<Rightarrow>
          Some (padDigits 4 ly @ (str ''-'') @ padDigits 2 lm @ (str ''-'') @ padDigits 2 ld))"

text \<open>The formatter where the local clock is UTC.\<close>

definition sampleFormat :: "js_date \<Rightarrow> jsstring option" where
  "sampleFormat = formatLocal 0"

definition isDigit :: "int \<Rightarrow> bool" where
  "isDigit c = (c \<in> set (str ''0123456789''))"

definition digitsValue :: "jsstring \<Rightarrow> nat" where
  "digitsValue s = foldl (\<lambda>a c. 10 * a + nat (c - 48)) 0 s"

text \<open>
  \<^verbatim>\<open>new Date(s)\<close>: a text of the form \<^verbatim>\<open>yyyy-MM-dd\<close> that names a day of the
  calendar is read as the midnight that starts that day in UTC, in every time zone. Any
  other text gives the invalid date here (for some of them JavaScript leaves the result to
  the implementation).
\<close>

definition sampleDate :: "jsstring \<Rightarrow> js_date" where
  "sampleDate s =
     (if length s = 10 \<and> s ! 4 = 45 \<and> s ! 7 = 45
         \<and> list_all isDigit (take 4 s) \<and> list_all isDigit (take 2 (drop 5 s))
         \<and> list_all isDigit (drop 8 s)
      then (let y = digitsValue (take 4 s);
                m = digitsValue (take 2 (drop 5 s));
                d = digitsValue (drop 8 s)
            in if 1 \<le> y \<and> 1 \<le> m \<and> m \<le> 12 \<and> 1 \<le> d \<and> d \<le> daysInMonth y m
               then Day y m d else InvalidDate)
      else InvalidDate)"

definition validDate :: "js_date \<Rightarrow> bool" where
  "validDate d = (d \<noteq> InvalidDate)"

definition sampleLevels :: "jsstring \<rightharpoonup> unit" where
  "sampleLevels = map_of [((str ''Low''), ()), ((str ''Medium''), ()), ((str ''High''), ())]"

definition sampleDepartments :: "Department list" where
  "sampleDepartments = [\<lparr>dept_id = (str ''d1''), dept_name = (str ''Sales'')\<rparr>,
                        \<lparr>dept_id = (str ''d2''), dept_name = (str ''Ops'')\<rparr>]"

definition sampleUsers :: "User list" where
  "sampleUsers = [\<lparr>user_id = (str ''u1''), user_name = (str ''Ada''), user_email = (str ''ada@example.org''),
                    user_emoji = (str '':)'')\<rparr>]"

definition sampleEvent :: "js_date CalendarEvent" where
  \<open>sampleEvent = \<lparr> title = (str ''Sale, "Big" Event''), date = Day 2024 3 9, urgency = (str ''High''),
                    description = Some (str ''a,b''), departmentId = Some (str ''d2''),
                    assigneeId = Some (str ''u1'') \<rparr>\<close>


text \<open>Import texts for the examples: a line with two columns, and a line with a bad date.\<close>

definition shortLineText :: jsstring where
  "shortLineText = (str ''Title,Date,Urgency'') @ [LF] @ (str ''only,two'') @ [LF] @ (str ''Plan,2024-03-09,High'')"

definition badDateText :: jsstring where
  "badDateText = (str ''Title,Date,Urgency'') @ [LF] @ (str ''Plan,soon,High'')"

definition inheritedUrgencyText :: jsstring where
  "inheritedUrgencyText =
     (str ''Title,Date,Urgency'') @ [LF] @ (str ''Plan,2024-03-09,constructor'') @ [LF]
     @ (str ''Party,2024-03-10,Unknown'') @ [LF] @ (str ''Picnic,2024-03-11,Low'')"

text \<open>
  The quoting as the specification words it: the value between two double quotes, with
  every double quote inside it written twice.
\<close>

definition quotedValue :: "jsstring \<Rightarrow> jsstring" where
  "quotedValue v =
     [DQUOTE] @ concat (map (\<lambda>c. if c = DQUOTE then [DQUOTE, DQUOTE] else [c]) v) @ [DQUOTE]"


text \<open>An access table with one mapped address, a clock in minutes, an announcement, an upload.\<close>

definition sampleIpConfig :: IpAccessConfig where
  "sampleIpConfig = \<lparr> designerIps = Some [(str ''192.168.1.1'')],
                        departmentIps = [(str ''10.0.0.1'') \<mapsto> (str ''d1'')] \<rparr>"

definition sampleStartOfDay :: "nat \<Rightarrow> nat" where
  "sampleStartOfDay minutes = minutes div 1440 * 1440"

definition sampleAnnouncement :: "nat Announcement" where
  "sampleAnnouncement = \<lparr> ann_id = (str ''a1''), ann_title = (str ''Notice''), ann_content = (str ''Hello''),
                            createdAt = 2870, readBy = Some [(str ''u2'')] \<rparr>"

definition sampleUpload :: "jsstring \<Rightarrow> jsstring option" where
  "sampleUpload file = (if file = [] then None else Some ((str ''https://cdn.example.org/'') @ file))"

text \<open>The text of one exported line, as the template of the export builds it.\<close>

definition exportedLine ::
  "('d \<Rightarrow> jsstring option) \<Rightarrow> Department list \<Rightarrow> User list \<Rightarrow> 'd CalendarEvent \<Rightarrow> jsstring" where
  "exportedLine fmt departments users ev =
     safeField (title ev) @ [COMMA] @ the (fmt (date ev)) @ [COMMA] @ urgency ev @ [COMMA]
     @ safeField (case description ev of None \<Rightarrow> [] | Some t \<Rightarrow> t) @ [COMMA]
     @ safeField (deptNameOf departments ev) @ [COMMA]
     @ safeField (userNameOf users ev) @ [LF]"


section \<open>Lemmas on the string primitives\<close>




lemma doubleQuotes_concat:
  "doubleQuotes s = concat (map (\<lambda>c. if c = DQUOTE then [DQUOTE, DQUOTE] else [c]) s)"
  by (induction s) auto





lemma js_split_no_sep: "sep \<notin> set a \<Longrightarrow> js_split sep a = [a]"
  by (induction a) auto





lemma js_trim_spaces: "list_all isSpace s \<Longrightarrow> js_trim s = []"
proof -
  assume "list_all isSpace s"
  then have "dropWhile isSpace s = []"
    by (simp add: dropWhile_eq_Nil_conv list_all_iff)
  then show ?thesis by (simp add: js_trim_def del: dropWhile_eq_Nil_conv)
qed

lemma js_trim_Nil_spaces:
  assumes "js_trim s = []"
  shows "list_all isSpace s"
proof -
  let ?t = "dropWhile isSpace s"
  from assms have "dropWhile isSpace (rev ?t) = []" by (simp add: js_trim_def)
  then have all: "\<forall>c\<in>set ?t. isSpace c" by (simp add: dropWhile_eq_Nil_conv)
  have "?t = []"
  proof (rule ccontr)
    assume ne: "?t \<noteq> []"
    then have "\<not> isSpace (hd ?t)" by (rule hd_dropWhile)
    moreover from ne have "hd ?t \<in> set ?t" by simp
    ultimately show False using all by blast
  qed
  then have "\<forall>c\<in>set s. isSpace c" by (simp only: dropWhile_eq_Nil_conv)
  then show ?thesis by (simp add: list_all_iff)
qed

section \<open>Lemmas on the line parser\<close>

lemma parseLoop_scan:
  "start \<le> i \<Longrightarrow> i \<le> length line \<Longrightarrow>
   parseLoop line i start inQ res = res @ scanCSV inQ (substring line start i) (drop i line)"
proof (induction line i start inQ res rule: parseLoop.induct)
  case (1 line i start inQuotes result)
  show ?case
  proof (cases "i < length line")
    case False
    with "1.prems" have "i = length line" by simp
    then show ?thesis
      by (simp add: substring_def)
  next
    case True
    then have d: "drop i line = line ! i # drop (Suc i) line"
      by (simp add: Cons_nth_drop_Suc)
    have s: "substring line start (Suc i) = substring line start i @ [line ! i]"
      using True "1.prems" unfolding substring_def
      by (simp add: Suc_diff_le take_Suc_conv_app_nth)
    have e: "substring line (Suc i) (Suc i) = []" by (simp add: substring_def)
    from True "1.prems" "1.IH" show ?thesis
      by (subst parseLoop.simps) (simp add: d s e del: parseLoop.simps)
  qed
qed

lemma parseCSVLine_scan: "parseCSVLine line = scanCSV False [] line"
  by (simp add: parseCSVLine_def parseLoop_scan substring_def del: parseLoop.simps)

lemma parseCSVLine_Nil: "parseCSVLine [] = [[]]"
  by (simp add: parseCSVLine_scan unquoteField_def stripOuterQuotes_def)








section \<open>Lemmas on the import loop\<close>

lemma importLoop_skip:
  "length (parseCSVLine (js_trim l)) < 3 \<Longrightarrow>
   importLoop mk cfgs ds us (l # ls) = importLoop mk cfgs ds us ls"
  by (simp add: Let_def)

lemma importLoop_push:
  assumes "3 \<le> length (parseCSVLine (js_trim l))"
  shows "importLoop mk cfgs ds us (l # ls)
         = importRecord mk cfgs ds us (parseCSVLine (js_trim l)) # importLoop mk cfgs ds us ls"
proof -
  have "js_trim l \<noteq> []"
    using assms by (auto simp: parseCSVLine_Nil)
  with assms show ?thesis by (simp add: Let_def)
qed

lemma importLoop_append:
  "importLoop mk cfgs ds us (xs @ ys)
   = importLoop mk cfgs ds us xs @ importLoop mk cfgs ds us ys"
  by (induction xs) (simp_all add: Let_def)

lemma importLoop_line:
  "importLoop mk cfgs ds us (pre @ l # post)
   = importLoop mk cfgs ds us pre
     @ (if length (parseCSVLine (js_trim l)) < 3 then []
        else [importRecord mk cfgs ds us (parseCSVLine (js_trim l))])
     @ importLoop mk cfgs ds us post"
proof (cases "length (parseCSVLine (js_trim l)) < 3")
  case True
  then show ?thesis by (simp add: importLoop_append importLoop_skip del: importLoop.simps)
next
  case False
  then have "3 \<le> length (parseCSVLine (js_trim l))" by simp
  then show ?thesis by (simp add: importLoop_append importLoop_push del: importLoop.simps)
qed

lemma js_split_Nil: "js_split sep [] = [[]]"
  by simp

lemma handleImportCSV_lines:
  assumes "js_split LF (js_trim importText) = header # l # ls"
  shows "handleImportCSV mk cfgs ds us importText = Inr (importLoop mk cfgs ds us (l # ls))"
proof -
  have "js_trim importText \<noteq> []"
    using assms by (auto simp del: js_split.simps simp add: js_split_Nil)
  with assms show ?thesis
    by (simp add: handleImportCSV_def del: js_split.simps importLoop.simps)
qed

section \<open>Lemmas on the export and the way back\<close>


















section \<open>The import of a text\<close>

text \<open>
  Claim C5. Any line after the header that splits into fewer than three columns adds
  nothing to the batch and raises no message: the handler still hands over the batch, which
  is what the lines before it give followed by what the lines after it give. A line with
  three or more columns adds exactly one event, built from its columns, at its place.
\<close>

theorem import_skips_short_lines:
  assumes "js_split LF (js_trim importText) = header # pre @ l # post"
  shows "handleImportCSV mkDate cfgs departments users importText
         = Inr (importLoop mkDate cfgs departments users pre
                @ (if length (parseCSVLine (js_trim l)) < 3 then []
                   else [importRecord mkDate cfgs departments users (parseCSVLine (js_trim l))])
                @ importLoop mkDate cfgs departments users post)"
proof -
  obtain x xs where x: "pre @ l # post = x # xs"
    by (cases "pre @ l # post") auto
  with assms have "js_split LF (js_trim importText) = header # x # xs" by simp
  then have "handleImportCSV mkDate cfgs departments users importText
             = Inr (importLoop mkDate cfgs departments users (x # xs))"
    by (rule handleImportCSV_lines)
  then show ?thesis
    unfolding x [symmetric] by (simp only: importLoop_line)
qed

text \<open>
  The text has a header, the line \<^verbatim>\<open>only,two\<close> and a line of three columns: the
  batch is the event of the last line alone.
\<close>

theorem import_skips_short_lines_witness:
  "handleImportCSV sampleDate sampleLevels sampleDepartments sampleUsers shortLineText
   = Inr [\<lparr> title = (str ''Plan''), date = Day 2024 3 9, urgency = (str ''High''), description = None,
             departmentId = None, assigneeId = None \<rparr>]"
proof -
  have h: "js_split LF (js_trim shortLineText)
           = (str ''Title,Date,Urgency'') # [] @ (str ''only,two'') # [(str ''Plan,2024-03-09,High'')]"
    by code_simp
  have a: "length (parseCSVLine (js_trim (str ''only,two''))) < 3" by code_simp
  have b: "importLoop sampleDate sampleLevels sampleDepartments sampleUsers
             [(str ''Plan,2024-03-09,High'')]
           = [\<lparr> title = (str ''Plan''), date = Day 2024 3 9, urgency = (str ''High''), description = None,
             departmentId = None, assigneeId = None \<rparr>]" by code_simp
  have e: "importLoop sampleDate sampleLevels sampleDepartments sampleUsers [] = []" by simp
  show ?thesis
    using import_skips_short_lines [OF h, of sampleDate sampleLevels sampleDepartments sampleUsers]
    by (simp only: a b e if_True append_Nil)
qed

text \<open>
  Claim C9. When the trimmed import text has no line feed, that is, when the text is empty,
  all white space or a single line, the handler shows a message and hands no batch to
  \<^verbatim>\<open>onBulkAddEvents\<close>: the message for an empty text when nothing is left after
  trimming, the message for a text of a header only otherwise.
\<close>

theorem import_rejects_empty_or_header_only:
  assumes "LF \<notin> set (js_trim importText)"
  shows "handleImportCSV mkDate cfgs departments users importText
         = Inl (if js_trim importText = [] then EmptyCsvInput else HeaderOnlyCsv)"
  using assms by (simp add: handleImportCSV_def js_split_no_sep del: js_split.simps)

text \<open>
  A text of spaces and a line feed, a text of one no-break space, the header line followed
  by a line feed, and the header line followed by a line feed and a no-break space.
\<close>

theorem import_rejects_empty_or_header_only_witness:
  "handleImportCSV sampleDate sampleLevels sampleDepartments sampleUsers
     (str '' '' @ [LF] @ str ''  '') = Inl EmptyCsvInput
   \<and> handleImportCSV sampleDate sampleLevels sampleDepartments sampleUsers [0xA0]
     = Inl EmptyCsvInput
   \<and> handleImportCSV sampleDate sampleLevels sampleDepartments sampleUsers (csvHeader @ [LF])
     = Inl HeaderOnlyCsv
   \<and> handleImportCSV sampleDate sampleLevels sampleDepartments sampleUsers
     (csvHeader @ [LF, 0xA0]) = Inl HeaderOnlyCsv"
proof -
  have a: "js_trim (str '' '' @ [LF] @ str ''  '') = []" by code_simp
  have n: "js_trim [0xA0] = []" by code_simp
  have b: "js_trim (csvHeader @ [LF]) = csvHeader" by code_simp
  have m: "js_trim (csvHeader @ [LF, 0xA0]) = csvHeader" by code_simp
  have c: "LF \<notin> set csvHeader" by code_simp
  have d: "csvHeader \<noteq> []" by code_simp
  from a have a': "LF \<notin> set (js_trim (str '' '' @ [LF] @ str ''  ''))" by simp
  from n have n': "LF \<notin> set (js_trim [0xA0])" by simp
  from b c have b': "LF \<notin> set (js_trim (csvHeader @ [LF]))" by simp
  from m c have m': "LF \<notin> set (js_trim (csvHeader @ [LF, 0xA0]))" by simp
  show ?thesis
    using import_rejects_empty_or_header_only
            [OF a', of sampleDate sampleLevels sampleDepartments sampleUsers]
      import_rejects_empty_or_header_only
            [OF n', of sampleDate sampleLevels sampleDepartments sampleUsers]
      import_rejects_empty_or_header_only
            [OF b', of sampleDate sampleLevels sampleDepartments sampleUsers]
      import_rejects_empty_or_header_only
            [OF m', of sampleDate sampleLevels sampleDepartments sampleUsers]
    by (simp only: a n b m d if_True if_False simp_thms)
qed

lemma handleImportCSV_row:
  assumes "js_split LF (js_trim importText) = header # pre @ l # post"
    and "3 \<le> length (parseCSVLine (js_trim l))"
  shows "handleImportCSV mk cfgs ds us importText
         = Inr (importLoop mk cfgs ds us pre
                @ importRecord mk cfgs ds us (parseCSVLine (js_trim l))
                # importLoop mk cfgs ds us post)"
proof -
  obtain x xs where x: "pre @ l # post = x # xs"
    by (cases "pre @ l # post") auto
  with assms have "js_split LF (js_trim importText) = header # x # xs" by simp
  then have "handleImportCSV mk cfgs ds us importText
             = Inr (importLoop mk cfgs ds us (x # xs))"
    by (rule handleImportCSV_lines)
  with assms(2) show ?thesis
    unfolding x [symmetric] by (simp only: importLoop_line) simp
qed

lemma importRecord_date:
  "date (importRecord mk cfgs ds us cols) = mk (cols ! 1)"
  by (simp add: importRecord_def Let_def)

lemma importRecord_urgency:
  "urgency (importRecord mk cfgs ds us cols)
   = (if hasUrgencyConfig cfgs (cols ! 2) then cols ! 2 else (str ''Medium''))"
  by (simp add: importRecord_def Let_def)

lemma import_urgency_levels:
  "urgency (importRecord mk cfgs ds us cols)
   = (if cols ! 2 \<in> dom cfgs \<or> inheritedName (cols ! 2) then cols ! 2 else (str ''Medium''))"
  by (auto simp: importRecord_urgency hasUrgencyConfig_def split: option.splits)

text \<open>
  Claim C3. A line after the header with at least three columns whose date column does not
  give a valid date is not rejected: the handler hands over the batch, the line's event
  stands at its place in it, and the date of the event is the value
  \<^verbatim>\<open>new Date(dateStr)\<close> gave, stored without any check. The predicate \<open>isValid\<close>
  is any test of dates.
\<close>

theorem import_keeps_unparsed_date:
  assumes "js_split LF (js_trim importText) = header # pre @ l # post"
    and "3 \<le> length (parseCSVLine (js_trim l))"
    and "\<not> isValid (mkDate (parseCSVLine (js_trim l) ! 1))"
  shows "handleImportCSV mkDate cfgs departments users importText
         = Inr (importLoop mkDate cfgs departments users pre
                @ importRecord mkDate cfgs departments users (parseCSVLine (js_trim l))
                # importLoop mkDate cfgs departments users post)
       \<and> date (importRecord mkDate cfgs departments users (parseCSVLine (js_trim l)))
           = mkDate (parseCSVLine (js_trim l) ! 1)
       \<and> \<not> isValid (date (importRecord mkDate cfgs departments users (parseCSVLine (js_trim l))))"
  using assms(3) handleImportCSV_row [OF assms(1,2)] by (simp add: importRecord_date)

text \<open>The date column \<^verbatim>\<open>soon\<close> gives the invalid date, and the event carries it.\<close>

theorem import_keeps_unparsed_date_witness:
  "handleImportCSV sampleDate sampleLevels sampleDepartments sampleUsers badDateText
   = Inr [\<lparr> title = (str ''Plan''), date = InvalidDate, urgency = (str ''High''), description = None,
             departmentId = None, assigneeId = None \<rparr>]"
proof -
  have h: "js_split LF (js_trim badDateText) = (str ''Title,Date,Urgency'') # [] @ (str ''Plan,soon,High'') # []"
    by code_simp
  have c: "parseCSVLine (js_trim (str ''Plan,soon,High'')) = [(str ''Plan''), (str ''soon''), (str ''High'')]"
    by code_simp
  have n: "3 \<le> length (parseCSVLine (js_trim (str ''Plan,soon,High'')))"
    by (simp add: c)
  have v: "\<not> validDate (sampleDate (parseCSVLine (js_trim (str ''Plan,soon,High'')) ! 1))"
    unfolding c by code_simp
  have r: "importRecord sampleDate sampleLevels sampleDepartments sampleUsers
             [(str ''Plan''), (str ''soon''), (str ''High'')]
           = \<lparr> title = (str ''Plan''), date = InvalidDate, urgency = (str ''High''), description = None,
               departmentId = None, assigneeId = None \<rparr>"
    by code_simp
  have e: "importLoop sampleDate sampleLevels sampleDepartments sampleUsers [] = []" by simp
  from import_keeps_unparsed_date [where importText = badDateText and pre = "[]" and post = "[]"
      and isValid = validDate and mkDate = sampleDate and cfgs = sampleLevels
      and departments = sampleDepartments and users = sampleUsers, OF h n v]
  show ?thesis
    by (simp only: c r e append_Nil)
qed

text \<open>
  Claim C6: a row whose urgency is not a known level gets the level \<^verbatim>\<open>Medium\<close>
  and is never rejected, and a known level is kept. The handler keeps every row, keeps a
  known level and replaces most unknown ones, as \<open>import_urgency_levels\<close> says. But it
  tests the level by reading the table of levels as a condition, and that finds the
  properties every object inherits: the urgency \<^verbatim>\<open>constructor\<close>, which is no level of
  the table, is kept as it is, where \<^verbatim>\<open>Unknown\<close> becomes \<^verbatim>\<open>Medium\<close> and
  \<^verbatim>\<open>Low\<close> stays.
\<close>

theorem import_urgency_inherited_name:
  "sampleLevels (str ''constructor'') = None
   \<and> handleImportCSV sampleDate sampleLevels sampleDepartments sampleUsers inheritedUrgencyText
     = Inr [\<lparr> title = (str ''Plan''), date = Day 2024 3 9, urgency = (str ''constructor''),
               description = None, departmentId = None, assigneeId = None \<rparr>,
            \<lparr> title = (str ''Party''), date = Day 2024 3 10, urgency = (str ''Medium''),
               description = None, departmentId = None, assigneeId = None \<rparr>,
            \<lparr> title = (str ''Picnic''), date = Day 2024 3 11, urgency = (str ''Low''),
               description = None, departmentId = None, assigneeId = None \<rparr>]"
  by code_simp

section \<open>The export of events\<close>


lemma safeField_quotedValue: "safeField v = quotedValue v"
  by (simp add: safeField_def quotedValue_def doubleQuotes_concat)




lemma exportRow_line:
  assumes "exportRow fmt ds us ev = Some row"
  shows "fmt (date ev) \<noteq> None \<and> row = exportedLine fmt ds us ev"
  using assms
  by (auto simp: exportRow_def exportFields_def exportedLine_def Let_def split: option.splits)

lemma exportLoop_text:
  assumes "exportLoop fmt ds us acc events = Some csv"
  shows "list_all (\<lambda>ev. fmt (date ev) \<noteq> None) events
         \<and> csv = acc @ concat (map (exportedLine fmt ds us) events)"
  using assms
proof (induction events arbitrary: acc)
  case Nil
  then show ?case by simp
next
  case (Cons ev events)
  from Cons.prems obtain row where r: "exportRow fmt ds us ev = Some row"
    and l: "exportLoop fmt ds us (acc @ row) events = Some csv"
    by (auto split: option.splits)
  from exportRow_line [OF r] Cons.IH [OF l] show ?case by simp
qed

lemma handleExportCSV_text:
  assumes "handleExportCSV fmt ds us events = Some csv"
  shows "list_all (\<lambda>ev. fmt (date ev) \<noteq> None) events
         \<and> csv = csvHeader @ [LF] @ concat (map (exportedLine fmt ds us) events)"
  using exportLoop_text [OF assms [unfolded handleExportCSV_def]] by simp

text \<open>
  Claim C2, as amended. The text the export hands to the download is the header line
  followed by one line per event, in order, and each line is: the title, the description,
  the department name and the assignee name between double quotes with every double quote
  inside them doubled, whether or not the value has a comma; and the date and the urgency
  as they are, without quotes; six fields with commas between them, and a line feed.
\<close>

theorem export_quotes_text_fields:
  assumes "handleExportCSV fmt departments users events = Some csv"
  shows "list_all (\<lambda>ev. fmt (date ev) \<noteq> None) events
       \<and> csv = csvHeader @ [LF]
           @ concat (map (\<lambda>ev.
               quotedValue (title ev) @ [COMMA]
               @ the (fmt (date ev)) @ [COMMA]
               @ urgency ev @ [COMMA]
               @ quotedValue (case description ev of None \<Rightarrow> [] | Some t \<Rightarrow> t) @ [COMMA]
               @ quotedValue (deptNameOf departments ev) @ [COMMA]
               @ quotedValue (userNameOf users ev) @ [LF]) events)"
proof -
  have "exportedLine fmt departments users
        = (\<lambda>ev. quotedValue (title ev) @ [COMMA]
               @ the (fmt (date ev)) @ [COMMA]
               @ urgency ev @ [COMMA]
               @ quotedValue (case description ev of None \<Rightarrow> [] | Some t \<Rightarrow> t) @ [COMMA]
               @ quotedValue (deptNameOf departments ev) @ [COMMA]
               @ quotedValue (userNameOf users ev) @ [LF])"
    by (rule ext) (simp add: exportedLine_def safeField_quotedValue)
  with handleExportCSV_text [OF assms] show ?thesis by simp
qed

text \<open>The text exported for the sample event.\<close>

theorem export_quotes_text_fields_witness:
  \<open>list_all (\<lambda>ev. sampleFormat (date ev) \<noteq> None) [sampleEvent]
   \<and> str ''Title,Date,Urgency,Description,Department,Assignee'' @ [LF]
     @ str ''"Sale, ""Big"" Event",2024-03-09,High,"a,b","Ops","Ada"'' @ [LF]
     = csvHeader @ [LF]
       @ concat (map (\<lambda>ev.
               quotedValue (title ev) @ [COMMA]
               @ the (sampleFormat (date ev)) @ [COMMA]
               @ urgency ev @ [COMMA]
               @ quotedValue (case description ev of None \<Rightarrow> [] | Some t \<Rightarrow> t) @ [COMMA]
               @ quotedValue (deptNameOf sampleDepartments ev) @ [COMMA]
               @ quotedValue (userNameOf sampleUsers ev) @ [LF]) [sampleEvent])\<close>
proof -
  have h: \<open>handleExportCSV sampleFormat sampleDepartments sampleUsers [sampleEvent]
     = Some (str ''Title,Date,Urgency,Description,Department,Assignee'' @ [LF]
             @ str ''"Sale, ""Big"" Event",2024-03-09,High,"a,b","Ops","Ada"'' @ [LF])\<close>
    by code_simp
  show ?thesis by (rule export_quotes_text_fields [OF h])
qed

text \<open>
  The claim as stated, that the date and the urgency are wrapped in double quotes as well,
  fails on the sample event: the text exported has the bare date and level, and so differs
  from the text with all six values quoted.
\<close>

theorem export_date_urgency_counterexample:
  \<open>handleExportCSV sampleFormat sampleDepartments sampleUsers [sampleEvent]
     = Some (str ''Title,Date,Urgency,Description,Department,Assignee'' @ [LF]
             @ str ''"Sale, ""Big"" Event",2024-03-09,High,"a,b","Ops","Ada"'' @ [LF])
   \<and> str ''Title,Date,Urgency,Description,Department,Assignee'' @ [LF]
       @ str ''"Sale, ""Big"" Event",2024-03-09,High,"a,b","Ops","Ada"'' @ [LF]
     \<noteq> csvHeader @ [LF]
       @ quotedValue (title sampleEvent) @ [COMMA]
       @ quotedValue (str ''2024-03-09'') @ [COMMA]
       @ quotedValue (urgency sampleEvent) @ [COMMA]
       @ quotedValue (str ''a,b'') @ [COMMA]
       @ quotedValue (str ''Ops'') @ [COMMA]
       @ quotedValue (str ''Ada'') @ [LF]\<close>
  by code_simp



section \<open>Export followed by import\<close>




section \<open>The access table\<close>

lemma assignAll_apply:
  "assignAll m ips d ip = (if ip \<in> set ips then Some d else m ip)"
  by (induction ips arbitrary: m) auto

lemma hasMapping_iff:
  "[] \<notin> ran m \<Longrightarrow> \<not> inheritedName ip \<Longrightarrow> hasMapping m ip \<longleftrightarrow> m ip \<noteq> None"
  by (auto simp: hasMapping_def ran_def split: option.splits)

lemma splitRuns_all_sep: "list_all p s \<Longrightarrow> set (splitRuns p s) \<subseteq> {[]}"
proof (induction p s rule: splitRuns.induct)
  case (1 p)
  then show ?case by simp
next
  case (2 p c cs)
  then have "p c" and d: "dropWhile p cs = []" by (simp_all add: list_all_iff)
  then show ?case by (simp del: dropWhile_eq_Nil_conv)
qed

lemma ipsToAdd_blank:
  assumes "js_trim newMapIp = []"
  shows "ipsToAdd newMapIp = []"
proof -
  from assms have "list_all isSpace newMapIp" by (rule js_trim_Nil_spaces)
  then have "list_all isIpSeparator newMapIp"
    by (simp add: list_all_iff isIpSeparator_def)
  then have "set (splitRuns isIpSeparator newMapIp) \<subseteq> {[]}" by (rule splitRuns_all_sep)
  moreover have "js_trim [] = []" by (simp add: js_trim_def)
  ultimately show ?thesis
    by (auto simp: ipsToAdd_def filter_empty_conv)
qed

text \<open>
  What the handler does for a table that maps no address to the empty identifier, a
  department identifier that is not empty and a batch with no inherited name in it: a
  batch with an address that already has an entry is refused whole, and any other batch is
  applied whole.
\<close>

lemma add_mapping_regular:
  assumes "[] \<notin> ran (departmentIps ipConfig)"
    and "newMapDeptId \<noteq> []"
    and "list_all (\<lambda>ip. \<not> inheritedName ip) (ipsToAdd newMapIp)"
  shows "if \<exists>ip \<in> set (ipsToAdd newMapIp). departmentIps ipConfig ip \<noteq> None
         then handleAddIpMapping ipConfig newMapIp newMapDeptId
                = Inl (AlreadyMapped
                         (filter (\<lambda>ip. departmentIps ipConfig ip \<noteq> None) (ipsToAdd newMapIp)))
              \<and> tableAfter ipConfig (handleAddIpMapping ipConfig newMapIp newMapDeptId) = ipConfig
         else (\<forall>ip. departmentIps
                       (tableAfter ipConfig (handleAddIpMapping ipConfig newMapIp newMapDeptId)) ip
                     = (if ip \<in> set (ipsToAdd newMapIp) then Some newMapDeptId
                        else departmentIps ipConfig ip))
              \<and> designerIps
                    (tableAfter ipConfig (handleAddIpMapping ipConfig newMapIp newMapDeptId))
                  = designerIps ipConfig
              \<and> (ipsToAdd newMapIp \<noteq> [] \<longrightarrow>
                    (\<exists>updated. handleAddIpMapping ipConfig newMapIp newMapDeptId = Inr updated))"
proof -
  let ?m = "departmentIps ipConfig"
  have f: "filter (hasMapping ?m) (ipsToAdd newMapIp)
           = filter (\<lambda>ip. ?m ip \<noteq> None) (ipsToAdd newMapIp)"
    using hasMapping_iff [OF assms(1)] assms(3)
    by (intro filter_cong) (auto simp: list_all_iff)
  show ?thesis
  proof (cases "\<exists>ip \<in> set (ipsToAdd newMapIp). ?m ip \<noteq> None")
    case True
    then have ne: "filter (\<lambda>ip. ?m ip \<noteq> None) (ipsToAdd newMapIp) \<noteq> []"
      by (auto simp: filter_empty_conv)
    from True have "ipsToAdd newMapIp \<noteq> []" by auto
    then have t: "js_trim newMapIp \<noteq> []" using ipsToAdd_blank by blast
    have "handleAddIpMapping ipConfig newMapIp newMapDeptId
          = Inl (AlreadyMapped (filter (\<lambda>ip. ?m ip \<noteq> None) (ipsToAdd newMapIp)))"
      using t assms(2) ne by (simp add: handleAddIpMapping_def f Let_def)
    with True show ?thesis by (simp add: tableAfter_def)
  next
    case False
    then have e: "filter (\<lambda>ip. ?m ip \<noteq> None) (ipsToAdd newMapIp) = []"
      by (auto simp: filter_empty_conv)
    show ?thesis
    proof (cases "js_trim newMapIp = []")
      case True
      then have "ipsToAdd newMapIp = []" by (rule ipsToAdd_blank)
      with True False show ?thesis
        by (simp add: handleAddIpMapping_def tableAfter_def)
    next
      case nb: False
      then have "handleAddIpMapping ipConfig newMapIp newMapDeptId
            = Inr (ipConfig\<lparr> departmentIps := assignAll ?m (ipsToAdd newMapIp) newMapDeptId \<rparr>)"
        using assms(2) e by (simp add: handleAddIpMapping_def f Let_def)
      with False show ?thesis
        by (simp add: tableAfter_def assignAll_apply)
    qed
  qed
qed


text \<open>
  Claim C4: when an address of the batch already has a mapping the whole batch is rejected
  and the table stays as it is, and otherwise every address of the batch is inserted for
  the given department. The handler decides whether an address has a mapping by reading
  \<^verbatim>\<open>ipConfig.departmentIps[ip]\<close> as a condition, and that also finds the properties
  every object inherits. In the sample table, where only \<^verbatim>\<open>10.0.0.1\<close> is mapped, no
  address of the batch \<^verbatim>\<open>10.0.0.2, constructor\<close> has a mapping, yet the handler
  reports \<^verbatim>\<open>constructor\<close> as already defined and inserts nothing.
\<close>

theorem add_mapping_inherited_name:
  "departmentIps sampleIpConfig (str ''10.0.0.2'') = None
   \<and> departmentIps sampleIpConfig (str ''constructor'') = None
   \<and> ipsToAdd (str ''10.0.0.2, constructor'') = [str ''10.0.0.2'', str ''constructor'']
   \<and> handleAddIpMapping sampleIpConfig (str ''10.0.0.2, constructor'') (str ''d2'')
       = Inl (AlreadyMapped [str ''constructor''])"
proof -
  have b: "ipsToAdd (str ''10.0.0.2, constructor'') = [str ''10.0.0.2'', str ''constructor'']"
    by code_simp
  have t: "js_trim (str ''10.0.0.2, constructor'') \<noteq> []" by code_simp
  have d: "str ''d2'' \<noteq> []" by (simp add: str_def)
  have m1: "departmentIps sampleIpConfig (str ''10.0.0.2'') = None" by code_simp
  have m2: "departmentIps sampleIpConfig (str ''constructor'') = None" by code_simp
  have h1: "\<not> hasMapping (departmentIps sampleIpConfig) (str ''10.0.0.2'')" by code_simp
  have h2: "hasMapping (departmentIps sampleIpConfig) (str ''constructor'')" by code_simp
  have "handleAddIpMapping sampleIpConfig (str ''10.0.0.2, constructor'') (str ''d2'')
       = Inl (AlreadyMapped [str ''constructor''])"
    using t d h1 h2 by (simp add: handleAddIpMapping_def b Let_def)
  with b m1 m2 show ?thesis by (intro conjI)
qed

section \<open>Unread announcements\<close>

text \<open>
  Claim C7. An announcement is unread for a viewer exactly when there is a viewer
  identifier (not \<^verbatim>\<open>null\<close>, not the empty string), the announcement was created on
  the same local calendar day as the current time, and the identifier is not among those
  that acknowledged it. So no announcement is unread without a viewer, and none created on
  another day is unread, whoever acknowledged it. The effect that marks announcements as
  read when the board opens picks the same announcements.
\<close>

theorem isUnread_iff:
  "isUnread startOfDay now announcement currentUserId
     = (case currentUserId of
          None \<Rightarrow> False
        | Some viewerId \<Rightarrow>
            viewerId \<noteq> []
            \<and> startOfDay (createdAt announcement) = startOfDay now
            \<and> viewerId \<notin> set (case readBy announcement of None \<Rightarrow> [] | Some ids \<Rightarrow> ids))
   \<and> (startOfDay (createdAt announcement) \<noteq> startOfDay now
        \<longrightarrow> \<not> isUnread startOfDay now announcement currentUserId)
   \<and> markOnOpen startOfDay now isOpen currentUserId announcements
       = (if isOpen
          then map ann_id
                 (filter (\<lambda>a. isUnread startOfDay now a currentUserId) announcements)
          else [])"
proof -
  have "filter (\<lambda>a. isUnread startOfDay now a currentUserId) announcements = []"
    if "\<not> truthyId currentUserId"
    using that by (simp add: isUnread_def)
  moreover have "filter (\<lambda>a. isUnread startOfDay now a currentUserId) announcements
      = filter (\<lambda>a. isToday startOfDay now (createdAt a) \<and> \<not> readByIncludes a currentUserId)
          announcements"
    if "truthyId currentUserId"
    using that by (simp add: isUnread_def)
  ultimately have "markOnOpen startOfDay now isOpen currentUserId announcements
       = (if isOpen
          then map ann_id
                 (filter (\<lambda>a. isUnread startOfDay now a currentUserId) announcements)
          else [])"
    by (cases "truthyId currentUserId") (simp_all add: markOnOpen_def)
  then show ?thesis
    by (auto simp: isUnread_def isToday_def truthyId_def readByIncludes_def
        split: option.splits)
qed

text \<open>
  An announcement created ten minutes before midnight, acknowledged by \<^verbatim>\<open>u2\<close>: five
  minutes later it is unread for \<^verbatim>\<open>u1\<close> only, and ten minutes after midnight it is
  unread for nobody.
\<close>

theorem isUnread_iff_witness:
  "isUnread sampleStartOfDay 2875 sampleAnnouncement (Some (str ''u1''))
   \<and> \<not> isUnread sampleStartOfDay 2875 sampleAnnouncement (Some (str ''u2''))
   \<and> \<not> isUnread sampleStartOfDay 2875 sampleAnnouncement None
   \<and> \<not> isUnread sampleStartOfDay 2890 sampleAnnouncement (Some (str ''u1''))"
proof -
  have same: "sampleStartOfDay (createdAt sampleAnnouncement) = sampleStartOfDay 2875"
    by code_simp
  have other: "sampleStartOfDay (createdAt sampleAnnouncement) \<noteq> sampleStartOfDay 2890"
    by code_simp
  have acks: "(case readBy sampleAnnouncement of None \<Rightarrow> [] | Some ids \<Rightarrow> ids) = [(str ''u2'')]"
    by code_simp
  have 1: "isUnread sampleStartOfDay 2875 sampleAnnouncement (Some (str ''u1''))"
    unfolding isUnread_iff [where startOfDay = sampleStartOfDay and announcement = sampleAnnouncement
      and isOpen = True and announcements = "[]" and now = 2875 and currentUserId = "Some (str ''u1'')",
      THEN conjunct1] same acks by (simp add: str_def)
  have 2: "\<not> isUnread sampleStartOfDay 2875 sampleAnnouncement (Some (str ''u2''))"
    unfolding isUnread_iff [where startOfDay = sampleStartOfDay and announcement = sampleAnnouncement
      and isOpen = True and announcements = "[]" and now = 2875 and currentUserId = "Some (str ''u2'')",
      THEN conjunct1] same acks by (simp add: str_def)
  have 3: "\<not> isUnread sampleStartOfDay 2875 sampleAnnouncement None"
    unfolding isUnread_iff [where startOfDay = sampleStartOfDay and announcement = sampleAnnouncement
      and isOpen = True and announcements = "[]" and now = 2875 and currentUserId = "None",
      THEN conjunct1] by simp
  have 4: "\<not> isUnread sampleStartOfDay 2890 sampleAnnouncement (Some (str ''u1''))"
    unfolding isUnread_iff [where startOfDay = sampleStartOfDay and announcement = sampleAnnouncement
      and isOpen = True and announcements = "[]" and now = 2890 and currentUserId = "Some (str ''u1'')",
      THEN conjunct1] using other by simp
  from 1 2 3 4 show ?thesis by (intro conjI)
qed

section \<open>New users\<close>

text \<open>
  Claim C10. Whenever the form hands a user to \<^verbatim>\<open>onAddUser\<close>, the glyph of that user
  is not empty: it is the selected emoji, or the fallback glyph when none was selected, in
  which case a photo was uploaded and its address is stored with the fallback glyph.
\<close>

theorem added_user_has_glyph:
  assumes "handleAddSubmit upload newName newEmail selectedEmoji avatarFile = Inr newUser"
  shows "nu_emoji newUser \<noteq> []
       \<and> nu_emoji newUser = (if selectedEmoji = [] then fallbackEmoji else selectedEmoji)
       \<and> (selectedEmoji = [] \<longrightarrow>
            (\<exists>file. avatarFile = Some file \<and> upload file = Some (nu_avatarUrl newUser)))
       \<and> nu_avatarUrl newUser
           = (case avatarFile of None \<Rightarrow> [] | Some file \<Rightarrow> the (upload file))"
proof (cases avatarFile)
  case None
  with assms show ?thesis
    by (simp add: handleAddSubmit_def fallbackEmoji_def split: if_splits) auto
next
  case (Some f)
  with assms show ?thesis
    by (cases "upload f")
      (auto simp: handleAddSubmit_def fallbackEmoji_def split: if_splits)
qed

text \<open>A photo and no emoji: the user has the fallback glyph and the address of the photo.\<close>

theorem added_user_has_glyph_witness:
  "handleAddSubmit sampleUpload (str ''Ada'') (str ''ada@example.org'') [] (Some (str ''ada.png''))
     = Inr \<lparr> nu_name = (str ''Ada''), nu_email = (str ''ada@example.org''), nu_emoji = fallbackEmoji,
             nu_avatarUrl = (str ''https://cdn.example.org/ada.png'') \<rparr>
   \<and> fallbackEmoji \<noteq> []
   \<and> (str ''https://cdn.example.org/ada.png'') \<noteq> []"
proof -
  have h: "handleAddSubmit sampleUpload (str ''Ada'') (str ''ada@example.org'') [] (Some (str ''ada.png''))
     = Inr \<lparr> nu_name = (str ''Ada''), nu_email = (str ''ada@example.org''), nu_emoji = fallbackEmoji,
             nu_avatarUrl = (str ''https://cdn.example.org/ada.png'') \<rparr>"
    by code_simp
  from added_user_has_glyph [OF h]
  have "nu_emoji \<lparr> nu_name = (str ''Ada''), nu_email = (str ''ada@example.org''), nu_emoji = fallbackEmoji,
             nu_avatarUrl = (str ''https://cdn.example.org/ada.png'') \<rparr> \<noteq> []"
    by (rule conjunct1)
  then have e: "fallbackEmoji \<noteq> []"
    by (simp only: NewUser.select_convs not_False_eq_True)
  have u: "(str ''https://cdn.example.org/ada.png'') \<noteq> []"
    by (simp add: str_def)
  from h e u show ?thesis by (intro conjI)
qed

end
